theory Spec2Isabelle
  imports Main
begin

section \<open>The RuuviTag monitoring stack\<close>

text \<open>
  The repository is one class, \<^verbatim>\<open>RuuviTagMonitoringStack\<close>
  (\<^verbatim>\<open>lib/ruuvi_tag_monitoring-stack.ts\<close>), whose constructor declares constructs in the
  stack it is building, and one application file that instantiates it. The constructor is
  embedded as a state transformer on the stack under construction: every \<^verbatim>\<open>new X(this, id,
  props)\<close> appends a declaration to the stack and returns a handle on it, and the two calls that
  mutate the stack afterwards (\<^verbatim>\<open>addDependency\<close>, \<^verbatim>\<open>grantWrite\<close>) update it.

  The construct library is not code of this repository. What it does with a declaration once
  it is made (the lower-level resources it expands a construct into, the resolution of tokens
  when the template is written) is not modelled: the theorems speak about the declarations,
  property values, references and dependency edges that the constructor issues. The checks the
  library makes when a construct is declared, on which the constructor throws instead of
  returning a stack, are applied by \<open>synthesize\<close> below.
\<close>

subsection \<open>String values that may refer to other declarations\<close>

text \<open>
  A declared construct is an object; the model names it by a handle, its position in the
  stack's list of declarations. A string the constructor puts together from a reference to
  another construct (\<^verbatim>\<open>iotThing.ref\<close>, \<^verbatim>\<open>iotRuleRole.roleArn\<close>,
  \<^verbatim>\<open>iotThingKeysAndCert.getResponseField("certificateArn")\<close>) is a list of fragments, so that
  the reference stays visible; a string put together from the inputs alone is a \<open>string\<close>.
  \<open>PseudoParameter\<close> is a value that CloudFormation fills in at deployment, such as
  \<^verbatim>\<open>AWS::AccountId\<close>.
\<close>

type_synonym handle = nat

datatype frag =
    Lit string
  | Ref handle
  | Attr handle string
  | ResponseField handle string
  | PseudoParameter string

type_synonym tstring = "frag list"

subsection \<open>Properties of the declared constructs\<close>

text \<open>\<^verbatim>\<open>iot.CfnThing\<close>\<close>

record CfnThingProps =
  thingName :: string

text \<open>\<^verbatim>\<open>cr.AwsCustomResource\<close> and the SDK calls it is given\<close>

datatype PhysicalResourceId =
    PhysicalResourceId_fromResponse string
  | PhysicalResourceId_of string

datatype parameter =
    BoolParameter bool
  | PhysicalResourceIdReference

record AwsSdkCall =
  service :: string
  action :: string
  parameters :: "(string \<times> parameter) list"
  physicalResourceId :: "PhysicalResourceId option"
  outputPaths :: "string list option"

datatype RetentionDays = ONE_DAY | ONE_WEEK | ONE_MONTH | SIX_MONTHS | ONE_YEAR | INFINITE

datatype AwsCustomResourcePolicy = fromSdkCalls "string list"

definition ANY_RESOURCE :: "string list" where
  "ANY_RESOURCE = [''*'']"

record AwsCustomResourceProps =
  functionName :: string
  onCreate :: AwsSdkCall
  logRetention :: RetentionDays
  policy :: AwsCustomResourcePolicy
  onDelete :: AwsSdkCall

text \<open>\<^verbatim>\<open>secretsmanager.Secret\<close>\<close>

datatype SecretValue = unsafePlainText tstring

record SecretProps =
  secretObjectValue :: "(string \<times> SecretValue) list"

text \<open>\<^verbatim>\<open>iot.CfnThingPrincipalAttachment\<close>\<close>

record CfnThingPrincipalAttachmentProps =
  principal :: tstring
  thingName :: string

text \<open>\<^verbatim>\<open>iot.CfnPolicy\<close> and its policy document\<close>

record IotPolicyStatement =
  Effect :: string
  Action :: "string list"
  Resource :: "tstring list"

record IotPolicyDocument =
  Version :: string
  Statement :: "IotPolicyStatement list"

record CfnPolicyProps =
  policyName :: string
  policyDocument :: IotPolicyDocument

text \<open>\<^verbatim>\<open>iot.CfnPolicyPrincipalAttachment\<close>\<close>

record CfnPolicyPrincipalAttachmentProps =
  principal :: tstring
  policyName :: string

text \<open>\<^verbatim>\<open>iam.Role\<close> and its inline policies\<close>

datatype IPrincipal = ServicePrincipal string

record PolicyStatement =
  actions :: "string list"
  resources :: "string list"

record PolicyDocument =
  statements :: "PolicyStatement list"

record RoleProps =
  assumedBy :: IPrincipal
  inlinePolicies :: "(string \<times> PolicyDocument) list"

text \<open>\<^verbatim>\<open>iot.CfnTopicRule\<close> and its payload\<close>

record CloudwatchMetricAction =
  metricName :: string
  metricNamespace :: string
  metricUnit :: string
  metricValue :: string
  roleArn :: tstring

record CloudwatchLogsAction =
  logGroupName :: tstring
  roleArn :: tstring

datatype TopicRuleAction =
    cloudwatchMetric CloudwatchMetricAction
  | cloudwatchLogs CloudwatchLogsAction

record TopicRulePayload =
  actions :: "TopicRuleAction list"
  awsIotSqlVersion :: string
  sql :: string
  ruleDisabled :: bool
  errorAction :: TopicRuleAction

record CfnTopicRuleProps =
  ruleName :: string
  topicRulePayload :: TopicRulePayload

text \<open>\<^verbatim>\<open>cw.Dashboard\<close>, its one kind of widget and the metric it graphs\<close>

datatype Duration = Duration_minutes nat

datatype Shading = Shading_NONE | Shading_ABOVE | Shading_BELOW

datatype LegendPosition = LegendPosition_BOTTOM | LegendPosition_RIGHT | LegendPosition_HIDDEN

record MetricProps =
  namespace :: string
  metricName :: string
  statistic :: string
  period :: Duration

record HorizontalAnnotation =
  annotation_value :: int
  color :: string
  fill :: Shading
  label :: string

record YAxisProps =
  axis_max :: int
  axis_min :: int
  showUnits :: bool

record GraphWidgetProps =
  left :: "MetricProps list"
  leftAnnotations :: "HorizontalAnnotation list"
  leftYAxis :: YAxisProps
  legendPosition :: LegendPosition
  region :: frag
  title :: string
  width :: int
  height :: int

datatype IWidget = GraphWidget GraphWidgetProps

record DashboardProps =
  dashboardName :: string
  start :: string
  widgets :: "IWidget list list"

subsection \<open>Declarations and the stack under construction\<close>

text \<open>One constructor for each construct class the stack instantiates.\<close>

datatype resource =
    is_CfnThing: CfnThing CfnThingProps
  | is_AwsCustomResource: AwsCustomResource AwsCustomResourceProps
  | is_Secret: Secret SecretProps
  | is_CfnThingPrincipalAttachment: CfnThingPrincipalAttachment CfnThingPrincipalAttachmentProps
  | is_CfnPolicy: CfnPolicy CfnPolicyProps
  | is_CfnPolicyPrincipalAttachment: CfnPolicyPrincipalAttachment CfnPolicyPrincipalAttachmentProps
  | is_LogGroup: LogGroup
  | is_Role: Role RoleProps
  | is_CfnTopicRule: CfnTopicRule CfnTopicRuleProps
  | is_Dashboard: Dashboard DashboardProps

text \<open>\<^verbatim>\<open>logGroup.grantWrite(grantee)\<close>: the log group and the grantee.\<close>

datatype Grant = GrantWrite handle handle

text \<open>
  The context the caller supplies: the name of the stack, and the region and the account of
  its environment, each of which the caller may leave unnamed.
\<close>

record StackContext =
  stackName :: string
  region :: "string option"
  account :: "string option"

text \<open>
  The stack under construction: what the \<^verbatim>\<open>cdk.Stack\<close> base class gives the constructor
  to read (\<^verbatim>\<open>this.stackName\<close>, \<^verbatim>\<open>this.region\<close>, \<^verbatim>\<open>this.account\<close>); the declarations in
  the order they were made, each under its construct id; the explicit dependency edges
  \<open>(dependent, prerequisite)\<close> added by \<^verbatim>\<open>addDependency\<close>; and the grants made.
\<close>

record Stack =
  stackName :: string
  region :: frag
  account :: frag
  constructs :: "(string \<times> resource) list"
  dependencies :: "(handle \<times> handle) list"
  grants :: "Grant list"

text \<open>The configuration record, \<^verbatim>\<open>RuuviTagMonitoringStackProps\<close>.\<close>

record RuuviTagMonitoringStackProps =
  thingName :: string
  iotTopicPrefix :: string
  cloudWatchMetricNameSpace :: string
  ruuviTagId :: string

text \<open>
  \<^verbatim>\<open>super(scope, id, props)\<close>: a stack with nothing declared in it yet. Its region and its
  account are the text the caller named, or else the pseudo parameter that stands for the
  region or account of the deployment.
\<close>

definition super :: "StackContext \<Rightarrow> Stack" where
  "super ctx =
     \<lparr> Stack.stackName = StackContext.stackName ctx,
       Stack.region =
         (case StackContext.region ctx of
            Some r \<Rightarrow> Lit r
          | None \<Rightarrow> PseudoParameter ''AWS::Region''),
       Stack.account =
         (case StackContext.account ctx of
            Some a \<Rightarrow> Lit a
          | None \<Rightarrow> PseudoParameter ''AWS::AccountId''),
       constructs = [], dependencies = [], grants = [] \<rparr>"

text \<open>
  \<^verbatim>\<open>new X(this, id, props)\<close>: declare a construct in the stack; the result is its handle.
  This is the declaration alone. The checks the library makes on it, and the exception it
  throws when one fails, are \<open>declaration_checks\<close> and \<open>synthesize\<close> below.
\<close>

definition new_construct :: "string \<Rightarrow> resource \<Rightarrow> Stack \<Rightarrow> handle \<times> Stack" where
  "new_construct cid r this =
     (length (constructs this), this\<lparr>constructs := constructs this @ [(cid, r)]\<rparr>)"

text \<open>\<^verbatim>\<open>dependent.addDependency(prerequisite)\<close>\<close>

definition addDependency :: "handle \<Rightarrow> handle \<Rightarrow> Stack \<Rightarrow> Stack" where
  "addDependency dependent prerequisite this =
     this\<lparr>dependencies := dependencies this @ [(dependent, prerequisite)]\<rparr>"

text \<open>\<^verbatim>\<open>logGroup.grantWrite(grantee)\<close>\<close>

definition grantWrite :: "handle \<Rightarrow> handle \<Rightarrow> Stack \<Rightarrow> Stack" where
  "grantWrite logGroup grantee this = this\<lparr>grants := grants this @ [GrantWrite logGroup grantee]\<rparr>"

text \<open>The apostrophe that encloses the topic in the rule's SQL statement.\<close>

definition apostrophe :: string where
  "apostrophe = [CHR 0x27]"

subsection \<open>The constructor\<close>

text \<open>
  The constructor of \<^verbatim>\<open>RuuviTagMonitoringStack\<close>, statement by statement. \<open>this\<close> is the
  stack under construction, passed from each statement to the next; the local constants of
  the source are the handles returned by \<open>new_construct\<close>.
\<close>

definition RuuviTagMonitoringStack ::
  "StackContext \<Rightarrow> RuuviTagMonitoringStackProps \<Rightarrow> Stack" where
  "RuuviTagMonitoringStack ctx props =
    (let this = super ctx;

         (iotThing, this) = new_construct (thingName props)
           (CfnThing \<lparr> CfnThingProps.thingName = thingName props \<rparr>) this;

         (iotThingKeysAndCert, this) = new_construct ''IotThingKeysAndCert''
           (AwsCustomResource
             \<lparr> functionName = Stack.stackName this @ ''CreateIotThingKeysAndCert'',
               onCreate =
                 \<lparr> service = ''@aws-sdk/client-iot'',
                   action = ''CreateKeysAndCertificateCommand'',
                   parameters = [(''setAsActive'', BoolParameter True)],
                   physicalResourceId = Some (PhysicalResourceId_fromResponse ''certificateId''),
                   outputPaths = Some [''certificateArn'', ''certificatePem'', ''keyPair.PrivateKey''] \<rparr>,
               logRetention = SIX_MONTHS,
               policy = fromSdkCalls ANY_RESOURCE,
               onDelete =
                 \<lparr> service = ''@aws-sdk/client-iot'',
                   action = ''DeleteCertificateCommand'',
                   parameters = [(''certificateId'', PhysicalResourceIdReference)],
                   physicalResourceId = None,
                   outputPaths = None \<rparr> \<rparr>) this;

         (iotThingKeysAndCertSecret, this) = new_construct ''IotThingKeysAndCertSecret''
           (Secret
             \<lparr> secretObjectValue =
                 [(''certificatePem'',
                     unsafePlainText [ResponseField iotThingKeysAndCert ''certificatePem'']),
                  (''privateKey'',
                     unsafePlainText [ResponseField iotThingKeysAndCert ''keyPair.PrivateKey''])] \<rparr>)
           this;

         (iotThingPrincipalAttachment, this) = new_construct ''IotThingPrincipalAttachment''
           (CfnThingPrincipalAttachment
             \<lparr> CfnThingPrincipalAttachmentProps.principal =
                 [ResponseField iotThingKeysAndCert ''certificateArn''],
               CfnThingPrincipalAttachmentProps.thingName = thingName props \<rparr>) this;
         this = addDependency iotThingPrincipalAttachment iotThing this;

         iotThingPolicyProps =
           \<lparr> CfnPolicyProps.policyName = thingName props @ ''Policy'',
             policyDocument =
               \<lparr> Version = ''2012-10-17'',
                 Statement =
                   [\<lparr> Effect = ''Allow'',
                      Action = [''iot:Publish''],
                      Resource =
                        [[Lit ''arn:aws:iot:'', Stack.region this, Lit '':'',
                          Stack.account this, Lit ('':topic/'' @ iotTopicPrefix props @ ''/*'')]] \<rparr>,
                    \<lparr> Effect = ''Allow'',
                      Action = [''iot:Connect''],
                      Resource =
                        [[Lit ''arn:aws:iot:'', Stack.region this, Lit '':'',
                          Stack.account this, Lit '':client/'', Ref iotThing]] \<rparr>] \<rparr> \<rparr>;
         (iotThingPolicy, this) = new_construct (thingName props @ ''Policy'')
           (CfnPolicy iotThingPolicyProps) this;

         (iotThingPolicyPrincipalAttachment, this) =
           new_construct ''IotThingPolicyPrincipalAttachment''
             (CfnPolicyPrincipalAttachment
               \<lparr> CfnPolicyPrincipalAttachmentProps.principal =
                   [ResponseField iotThingKeysAndCert ''certificateArn''],
                 CfnPolicyPrincipalAttachmentProps.policyName =
                   CfnPolicyProps.policyName iotThingPolicyProps \<rparr>) this;

         (iotRuleErrorLog, this) = new_construct ''IotRuleErrorLog'' LogGroup this;

         (iotRuleRole, this) = new_construct ''IotRuleRole''
           (Role
             \<lparr> assumedBy = ServicePrincipal ''iot.amazonaws.com'',
               inlinePolicies =
                 [(''putMetricsPolicy'',
                   \<lparr> statements =
                       [\<lparr> PolicyStatement.actions = [''cloudwatch:PutMetricData''],
                          resources = [''*''] \<rparr>] \<rparr>)] \<rparr>) this;
         this = grantWrite iotRuleErrorLog iotRuleRole this;

         (iotRule, this) = new_construct (''IotRule_'' @ ruuviTagId props)
           (CfnTopicRule
             \<lparr> ruleName = ''RuuviTagEvents_'' @ ruuviTagId props,
               topicRulePayload =
                 \<lparr> TopicRulePayload.actions =
                     [cloudwatchMetric
                        \<lparr> CloudwatchMetricAction.metricName = ''Temperature'',
                          metricNamespace = cloudWatchMetricNameSpace props @ ''/'' @ ruuviTagId props,
                          metricUnit = ''None'',
                          metricValue = ''${temperature}'',
                          CloudwatchMetricAction.roleArn = [Attr iotRuleRole ''roleArn''] \<rparr>,
                      cloudwatchMetric
                        \<lparr> CloudwatchMetricAction.metricName = ''Humidity'',
                          metricNamespace = cloudWatchMetricNameSpace props @ ''/'' @ ruuviTagId props,
                          metricUnit = ''None'',
                          metricValue = ''${humidity}'',
                          CloudwatchMetricAction.roleArn = [Attr iotRuleRole ''roleArn''] \<rparr>],
                   awsIotSqlVersion = ''2016-03-23'',
                   sql = ''SELECT temperature,humidity FROM '' @ apostrophe
                         @ iotTopicPrefix props @ ''/'' @ ruuviTagId props @ apostrophe,
                   ruleDisabled = False,
                   errorAction =
                     cloudwatchLogs
                       \<lparr> logGroupName = [Attr iotRuleErrorLog ''logGroupName''],
                         CloudwatchLogsAction.roleArn = [Attr iotRuleRole ''roleArn''] \<rparr> \<rparr> \<rparr>) this;

         (dashboard, this) = new_construct ''Dashboard''
           (Dashboard
             \<lparr> dashboardName = thingName props @ ''-Dashboard'',
               start = ''-P7D'',
               widgets =
                 [[GraphWidget
                     \<lparr> left =
                         [\<lparr> namespace = cloudWatchMetricNameSpace props @ ''/'' @ ruuviTagId props,
                            MetricProps.metricName = ''Humidity'',
                            statistic = ''Average'',
                            period = Duration_minutes 5 \<rparr>],
                       leftAnnotations =
                         [\<lparr> annotation_value = 53, color = ''#ff0000'',
                            fill = Shading_BELOW, label = ''Low'' \<rparr>,
                          \<lparr> annotation_value = 75, color = ''#ff0000'',
                            fill = Shading_ABOVE, label = ''High'' \<rparr>],
                       leftYAxis = \<lparr> axis_max = 85, axis_min = 45, showUnits = False \<rparr>,
                       legendPosition = LegendPosition_HIDDEN,
                       GraphWidgetProps.region = Stack.region this,
                       title = ''Kosteus (%)'',
                       width = 6,
                       height = 6 \<rparr>]] \<rparr>) this
     in this)"

text \<open>
  The application file: the stack is instantiated as \<^verbatim>\<open>RuuviTagMonitoringStack\<close> in region
  \<^verbatim>\<open>eu-north-1\<close>. The file names no account.
\<close>

definition app_context :: StackContext where
  "app_context =
     \<lparr> StackContext.stackName = ''RuuviTagMonitoringStack'',
       StackContext.region = Some ''eu-north-1'',
       StackContext.account = None \<rparr>"

definition app_props :: RuuviTagMonitoringStackProps where
  "app_props =
     \<lparr> thingName = ''RaspberryPi'',
       iotTopicPrefix = ''ruuvitag'',
       cloudWatchMetricNameSpace = ''RuuviTag'',
       ruuviTagId = ''f3d619998f38'' \<rparr>"

subsection \<open>The checks made when a construct is declared\<close>

text \<open>
  The constructor returns a stack only if \<^verbatim>\<open>super(scope, id, props)\<close> and every
  \<^verbatim>\<open>new X(this, id, props)\<close> in it return. The construct library throws
  \<^item> from \<^verbatim>\<open>super\<close>, when the stack name is not a letter followed by letters, digits and
    hyphens, or is longer than 128 characters;
  \<^item> from \<^verbatim>\<open>new\<close>, when the construct id is empty;
  \<^item> from \<^verbatim>\<open>new\<close>, when the id, with each \<^verbatim>\<open>/\<close> written as \<^verbatim>\<open>--\<close>, is already used in the
    stack;
  \<^item> from \<^verbatim>\<open>new cr.AwsCustomResource\<close>, when the function name is longer than 64 characters;
  \<^item> from \<^verbatim>\<open>new cw.Dashboard\<close>, when the dashboard name is empty or holds a character other
    than a letter, a digit, an underscore or a hyphen.

  The id is checked before the properties. These are the checks on the names and ids that this
  constructor passes. They are applied to the declarations in the order the constructor makes
  them, and the first that fails is the exception thrown, with the number of declarations made
  before it.
\<close>

datatype error =
    InvalidStackName string
  | EmptyConstructId
  | DuplicateConstructId string
  | FunctionNameTooLong nat
  | InvalidDashboardName string

definition letters :: string where
  "letters = ''ABCDEFGHIJKLMNOPQRSTUVWXYZabcdefghijklmnopqrstuvwxyz''"

definition digits :: string where
  "digits = ''0123456789''"

definition valid_stack_name :: "string \<Rightarrow> bool" where
  "valid_stack_name n =
     (case n of
        [] \<Rightarrow> False
      | c # cs \<Rightarrow> c \<in> set letters \<and> list_all (\<lambda>d. d \<in> set (letters @ digits @ ''-'')) cs
                \<and> length n \<le> 128)"

definition valid_dashboard_name :: "string \<Rightarrow> bool" where
  "valid_dashboard_name n = (n \<noteq> [] \<and> list_all (\<lambda>c. c \<in> set (letters @ digits @ ''_-'')) n)"

definition sanitizeId :: "string \<Rightarrow> string" where
  "sanitizeId cid = concat (map (\<lambda>c. if c = CHR ''/'' then ''--'' else [c]) cid)"

fun construct_check :: "resource \<Rightarrow> error option" where
  "construct_check (AwsCustomResource p) =
     (if 64 < length (functionName p) then Some (FunctionNameTooLong (length (functionName p)))
      else None)"
| "construct_check (Dashboard p) =
     (if valid_dashboard_name (dashboardName p) then None
      else Some (InvalidDashboardName (dashboardName p)))"
| "construct_check _ = None"

fun declaration_checks ::
  "string list \<Rightarrow> nat \<Rightarrow> (string \<times> resource) list \<Rightarrow> (nat \<times> error) option" where
  "declaration_checks used n [] = None"
| "declaration_checks used n ((cid, r) # rest) =
     (if cid = [] then Some (n, EmptyConstructId)
      else if sanitizeId cid \<in> set used then Some (n, DuplicateConstructId (sanitizeId cid))
      else (case construct_check r of
              Some e \<Rightarrow> Some (n, e)
            | None \<Rightarrow> declaration_checks (sanitizeId cid # used) (Suc n) rest))"

text \<open>
  Synthesis: the stack the constructor returns, or the exception thrown and the number of
  declarations made before it.
\<close>

definition synthesize ::
  "StackContext \<Rightarrow> RuuviTagMonitoringStackProps \<Rightarrow> (nat \<times> error) + Stack" where
  "synthesize ctx props =
     (if valid_stack_name (StackContext.stackName ctx) then
        (let this = RuuviTagMonitoringStack ctx props in
         case declaration_checks [] 0 (constructs this) of
           Some e \<Rightarrow> Inl e
         | None \<Rightarrow> Inr this)
      else Inl (0, InvalidStackName (StackContext.stackName ctx)))"

section \<open>Reading the synthesised stack\<close>

text \<open>The declarations of one class, in the order they were made.\<close>

fun customResource_of :: "resource \<Rightarrow> AwsCustomResourceProps list" where
  "customResource_of (AwsCustomResource p) = [p]"
| "customResource_of _ = []"

fun thingPrincipalAttachment_of :: "resource \<Rightarrow> CfnThingPrincipalAttachmentProps list" where
  "thingPrincipalAttachment_of (CfnThingPrincipalAttachment p) = [p]"
| "thingPrincipalAttachment_of _ = []"

fun policy_of :: "resource \<Rightarrow> CfnPolicyProps list" where
  "policy_of (CfnPolicy p) = [p]"
| "policy_of _ = []"

fun role_of :: "resource \<Rightarrow> RoleProps list" where
  "role_of (Role p) = [p]"
| "role_of _ = []"

fun topicRule_of :: "resource \<Rightarrow> CfnTopicRuleProps list" where
  "topicRule_of (CfnTopicRule p) = [p]"
| "topicRule_of _ = []"

fun dashboard_of :: "resource \<Rightarrow> DashboardProps list" where
  "dashboard_of (Dashboard p) = [p]"
| "dashboard_of _ = []"

definition declared :: "(resource \<Rightarrow> 'a list) \<Rightarrow> Stack \<Rightarrow> 'a list" where
  "declared proj s = concat (map (proj \<circ> snd) (constructs s))"

definition count_declared :: "(resource \<Rightarrow> bool) \<Rightarrow> Stack \<Rightarrow> nat" where
  "count_declared P s = length (filter (P \<circ> snd) (constructs s))"

text \<open>The declaration a handle stands for; a handle nothing was declared under stands for none.\<close>

definition resource_at :: "Stack \<Rightarrow> handle \<Rightarrow> resource option" where
  "resource_at s h = (if h < length (constructs s) then Some (snd (constructs s ! h)) else None)"

definition declares :: "Stack \<Rightarrow> (resource \<Rightarrow> bool) \<Rightarrow> handle \<Rightarrow> bool" where
  "declares s P h = (case resource_at s h of Some r \<Rightarrow> P r | None \<Rightarrow> False)"

text \<open>
  An explicit dependency edge from a declaration of class \<open>P\<close> to one of class \<open>Q\<close>: a pair
  that \<open>addDependency\<close> recorded.
\<close>

definition explicit_edge :: "(resource \<Rightarrow> bool) \<Rightarrow> (resource \<Rightarrow> bool) \<Rightarrow> Stack \<Rightarrow> bool" where
  "explicit_edge P Q s = list_ex (\<lambda>(d, p). declares s P d \<and> declares s Q p) (dependencies s)"

text \<open>
  The handles a declaration's property values refer to: every fragment of every string value
  it holds that is taken from another construct.
\<close>

fun frag_refs :: "frag \<Rightarrow> handle list" where
  "frag_refs (Lit _) = []"
| "frag_refs (Ref h) = [h]"
| "frag_refs (Attr h _) = [h]"
| "frag_refs (ResponseField h _) = [h]"
| "frag_refs (PseudoParameter _) = []"

definition tstring_refs :: "tstring \<Rightarrow> handle list" where
  "tstring_refs t = concat (map frag_refs t)"

fun secret_refs :: "SecretValue \<Rightarrow> handle list" where
  "secret_refs (unsafePlainText t) = tstring_refs t"

fun action_refs :: "TopicRuleAction \<Rightarrow> handle list" where
  "action_refs (cloudwatchMetric a) = tstring_refs (CloudwatchMetricAction.roleArn a)"
| "action_refs (cloudwatchLogs a) =
     tstring_refs (logGroupName a) @ tstring_refs (CloudwatchLogsAction.roleArn a)"

fun references :: "resource \<Rightarrow> handle list" where
  "references (CfnThing p) = []"
| "references (AwsCustomResource p) = []"
| "references (Secret p) = concat (map (secret_refs \<circ> snd) (secretObjectValue p))"
| "references (CfnThingPrincipalAttachment p) =
     tstring_refs (CfnThingPrincipalAttachmentProps.principal p)"
| "references (CfnPolicy p) =
     concat (map (\<lambda>st. concat (map tstring_refs (Resource st))) (Statement (policyDocument p)))"
| "references (CfnPolicyPrincipalAttachment p) =
     tstring_refs (CfnPolicyPrincipalAttachmentProps.principal p)"
| "references LogGroup = []"
| "references (Role p) = []"
| "references (CfnTopicRule p) =
     concat (map action_refs (TopicRulePayload.actions (topicRulePayload p)))
     @ action_refs (errorAction (topicRulePayload p))"
| "references (Dashboard p) = []"

text \<open>The cloudwatch-metric actions of the declared topic rules.\<close>

fun metricAction_of :: "TopicRuleAction \<Rightarrow> CloudwatchMetricAction list" where
  "metricAction_of (cloudwatchMetric a) = [a]"
| "metricAction_of (cloudwatchLogs a) = []"

definition metric_actions :: "Stack \<Rightarrow> CloudwatchMetricAction list" where
  "metric_actions s =
     concat (map (\<lambda>r. concat (map metricAction_of (TopicRulePayload.actions (topicRulePayload r))))
       (declared topicRule_of s))"

text \<open>The metric series graphed by the widgets of the declared dashboards.\<close>

fun widget_metrics :: "IWidget \<Rightarrow> MetricProps list" where
  "widget_metrics (GraphWidget g) = left g"

definition dashboard_metrics :: "Stack \<Rightarrow> MetricProps list" where
  "dashboard_metrics s =
     concat (map (\<lambda>d. concat (map widget_metrics (concat (widgets d)))) (declared dashboard_of s))"

text \<open>The resources of the statements of a policy document that allow \<^verbatim>\<open>iot:Publish\<close>.\<close>

definition publish_resources :: "IotPolicyDocument \<Rightarrow> tstring list" where
  "publish_resources doc =
     concat (map Resource (filter (\<lambda>st. ''iot:Publish'' \<in> set (Action st)) (Statement doc)))"

text \<open>The publish resources of the declared access policies.\<close>

definition publish_arns :: "Stack \<Rightarrow> tstring list" where
  "publish_arns s = concat (map (publish_resources \<circ> policyDocument) (declared policy_of s))"

text \<open>
  The characters of a string value that the stack itself writes: a fragment that is literal
  text gives its text, a fragment filled in at deployment gives none.
\<close>

fun frag_text :: "frag \<Rightarrow> string" where
  "frag_text (Lit t) = t"
| "frag_text (Ref _) = []"
| "frag_text (Attr _ _) = []"
| "frag_text (ResponseField _ _) = []"
| "frag_text (PseudoParameter _) = []"

definition tstring_text :: "tstring \<Rightarrow> string" where
  "tstring_text t = concat (map frag_text t)"

text \<open>
  The part of a topic ARN above the segment \<^verbatim>\<open>{prefix}/*\<close> it ends in: its text without the
  last \<open>length prefix + 2\<close> characters.
\<close>

definition above_topic_prefix :: "string \<Rightarrow> tstring \<Rightarrow> string" where
  "above_topic_prefix prefix arn =
     take (length (tstring_text arn) - length (prefix @ ''/*'')) (tstring_text arn)"

section \<open>The stack operations\<close>

lemmas constructor_defs =
  RuuviTagMonitoringStack_def super_def new_construct_def addDependency_def grantWrite_def Let_def

text \<open>
  The handle returned for a new declaration stands for that declaration, and the handles
  given out before keep standing for what they stood for.
\<close>

lemma new_construct_handle:
  "resource_at (snd (new_construct cid r s)) (fst (new_construct cid r s)) = Some r"
  by (simp add: new_construct_def resource_at_def)

lemma new_construct_frame:
  "h < length (constructs s) \<Longrightarrow> resource_at (snd (new_construct cid r s)) h = resource_at s h"
  by (simp add: new_construct_def resource_at_def nth_append)

lemma new_construct_dependencies:
  "dependencies (snd (new_construct cid r s)) = dependencies s"
  by (simp add: new_construct_def)

lemma addDependency_constructs:
  "constructs (addDependency d p s) = constructs s"
  by (simp add: addDependency_def)

lemma grantWrite_constructs:
  "constructs (grantWrite l g s) = constructs s \<and> dependencies (grantWrite l g s) = dependencies s"
  by (simp add: grantWrite_def)

text \<open>
  No reference and no dependency edge of the synthesised stack dangles: each names a handle
  under which something was declared.
\<close>

lemma references_declared:
  "list_all (\<lambda>(cid, r). list_all (\<lambda>h. h < length (constructs (RuuviTagMonitoringStack ctx props)))
       (references r))
     (constructs (RuuviTagMonitoringStack ctx props))"
  by (simp add: constructor_defs tstring_refs_def split: option.split)

lemma dependencies_declared:
  "list_all (\<lambda>(d, p). d < length (constructs (RuuviTagMonitoringStack ctx props))
       \<and> p < length (constructs (RuuviTagMonitoringStack ctx props)))
     (dependencies (RuuviTagMonitoringStack ctx props))"
  by (simp add: constructor_defs)

text \<open>
  The handles of the synthesised stack: what is declared under a handle, the one dependency
  edge, and the handles each declaration refers to, in the order of declaration.
\<close>

lemma declares_synthesised:
  "declares (RuuviTagMonitoringStack ctx props) P h
   = (h < 10 \<and> P (snd (constructs (RuuviTagMonitoringStack ctx props) ! h)))"
  by (simp add: declares_def resource_at_def) (simp add: constructor_defs)

lemma class_at:
  "is_CfnThing (snd (constructs (RuuviTagMonitoringStack ctx props) ! 0))"
  "is_AwsCustomResource (snd (constructs (RuuviTagMonitoringStack ctx props) ! 1))"
  "is_CfnThingPrincipalAttachment (snd (constructs (RuuviTagMonitoringStack ctx props) ! 3))"
  "is_LogGroup (snd (constructs (RuuviTagMonitoringStack ctx props) ! 6))"
  "is_Role (snd (constructs (RuuviTagMonitoringStack ctx props) ! 7))"
  "is_CfnTopicRule (snd (constructs (RuuviTagMonitoringStack ctx props) ! 8))"
  by (simp_all add: constructor_defs)

lemma synthesised_dependencies:
  "dependencies (RuuviTagMonitoringStack ctx props) = [(3, 0)]"
  by (simp add: constructor_defs)

lemma synthesised_references:
  "map (references \<circ> snd) (constructs (RuuviTagMonitoringStack ctx props))
   = [[], [], [1, 1], [1], [0], [1], [], [], [7, 7, 6, 7], []]"
  by (simp add: constructor_defs tstring_refs_def split: option.split)

section \<open>Synthesis and its failures\<close>

lemmas check_defs =
  synthesize_def sanitizeId_def valid_stack_name_def valid_dashboard_name_def letters_def
  digits_def

text \<open>A stack that synthesis returns is the one the constructor built.\<close>

lemma synthesize_Inr:
  "synthesize ctx props = Inr s \<Longrightarrow> s = RuuviTagMonitoringStack ctx props"
  by (auto simp add: synthesize_def Let_def split: option.splits if_splits)

text \<open>The application's own input passes every check.\<close>

lemma synthesize_app:
  "synthesize app_context app_props = Inr (RuuviTagMonitoringStack app_context app_props)"
  by (simp add: check_defs constructor_defs app_context_def app_props_def)

text \<open>
  Inputs on which the constructor throws: an empty device name (the first declaration has an
  empty id), the device name \<^verbatim>\<open>Dashboard\<close> (the id of the dashboard is then already used), a
  device name with a space (the dashboard name is then not a valid one), a stack name with a
  space, and a stack name that makes the function name 71 characters long.
\<close>

lemma synthesize_empty_thingName:
  "synthesize app_context (app_props\<lparr>thingName := []\<rparr>) = Inl (0, EmptyConstructId)"
  by (simp add: check_defs constructor_defs app_context_def app_props_def)

lemma synthesize_thingName_Dashboard:
  "synthesize app_context (app_props\<lparr>thingName := ''Dashboard''\<rparr>)
   = Inl (9, DuplicateConstructId ''Dashboard'')"
  by (simp add: check_defs constructor_defs app_context_def app_props_def)

lemma synthesize_thingName_with_space:
  "synthesize app_context (app_props\<lparr>thingName := ''Raspberry Pi''\<rparr>)
   = Inl (9, InvalidDashboardName ''Raspberry Pi-Dashboard'')"
  by (simp add: check_defs constructor_defs app_context_def app_props_def)

lemma synthesize_stackName_with_space:
  "synthesize (app_context\<lparr>StackContext.stackName := ''RuuviTag Monitoring''\<rparr>) app_props
   = Inl (0, InvalidStackName ''RuuviTag Monitoring'')"
  by (simp add: check_defs app_context_def)

lemma synthesize_long_stackName:
  "synthesize
     (app_context\<lparr>StackContext.stackName := ''RuuviTagMonitoringStackForTheGreenhouseSensors''\<rparr>)
     app_props
   = Inl (1, FunctionNameTooLong 71)"
  by (simp add: check_defs constructor_defs app_context_def app_props_def)

text \<open>Taking a suffix off a string.\<close>

lemma take_off_suffix: "take (length (xs @ ys) - length ys) (xs @ ys) = xs"
  by simp

section \<open>Properties of the synthesised stack\<close>

subsection \<open>The declarations made\<close>

text \<open>
  C1, as stated: for every valid configuration input the stack holds exactly nine resource
  declarations (one device identity, one credential, one secret, one attachment, one access
  policy, one routing rule, one error log sink, one execution role, one dashboard). The
  constructor makes ten: at the application's own input, on which synthesis returns a stack
  (\<open>synthesize_app\<close>), the number of declarations is not nine.
\<close>

theorem nine_declarations_counterexample:
  "length (constructs (RuuviTagMonitoringStack app_context app_props)) \<noteq> 9"
  by (simp add: constructor_defs)

text \<open>
  C1, amended: for every valid configuration input, that is, whenever synthesis returns a
  stack, the stack holds exactly ten resource declarations, one of each class: the device
  identity, the credential, the secret, the attachment of the credential to the device
  identity, the access policy, the attachment of the credential to the access policy, the
  error log sink, the execution role, the routing rule and the dashboard.
\<close>

theorem synthesis_declares_ten_resources:
  assumes "synthesize ctx props = Inr s"
  shows "length (constructs s) = 10
   \<and> count_declared is_CfnThing s = 1
   \<and> count_declared is_AwsCustomResource s = 1
   \<and> count_declared is_Secret s = 1
   \<and> count_declared is_CfnThingPrincipalAttachment s = 1
   \<and> count_declared is_CfnPolicy s = 1
   \<and> count_declared is_CfnPolicyPrincipalAttachment s = 1
   \<and> count_declared is_LogGroup s = 1
   \<and> count_declared is_Role s = 1
   \<and> count_declared is_CfnTopicRule s = 1
   \<and> count_declared is_Dashboard s = 1"
proof -
  from assms have "s = RuuviTagMonitoringStack ctx props"
    by (rule synthesize_Inr)
  then show ?thesis
    by (simp add: constructor_defs count_declared_def)
qed

theorem synthesis_declares_ten_resources_witness:
  "synthesize app_context app_props = Inr (RuuviTagMonitoringStack app_context app_props)
   \<and> length (constructs (RuuviTagMonitoringStack app_context app_props)) = 10
   \<and> count_declared is_CfnThingPrincipalAttachment
       (RuuviTagMonitoringStack app_context app_props) = 1
   \<and> count_declared is_CfnPolicyPrincipalAttachment
       (RuuviTagMonitoringStack app_context app_props) = 1"
  using synthesize_app synthesis_declares_ten_resources [OF synthesize_app]
  by simp

subsection \<open>Derived strings\<close>

text \<open>
  C2: for every configuration input, the SQL statement of the routing rule is
  \<^verbatim>\<open>SELECT temperature,humidity FROM '{iotTopicPrefix}/{ruuviTagId}'\<close>: it selects the two
  fields temperature and humidity from exactly that topic.
\<close>

theorem routing_rule_sql:
  "map (sql \<circ> topicRulePayload) (declared topicRule_of (RuuviTagMonitoringStack ctx props))
   = [''SELECT temperature,humidity FROM '' @ apostrophe
        @ iotTopicPrefix props @ ''/'' @ ruuviTagId props @ apostrophe]"
  by (simp add: constructor_defs declared_def)

text \<open>The example of the specification: the application's own input.\<close>

theorem routing_rule_sql_witness:
  "map (sql \<circ> topicRulePayload)
     (declared topicRule_of (RuuviTagMonitoringStack app_context app_props))
   = [''SELECT temperature,humidity FROM 'ruuvitag/f3d619998f38'' @ apostrophe]"
  using routing_rule_sql [of app_context app_props]
  by (simp add: app_props_def apostrophe_def)

text \<open>
  C3: for every configuration input, each cloudwatch-metric action of the routing rule and
  the metric of the dashboard's graph widget use the same metric namespace, the string
  \<^verbatim>\<open>{cloudWatchMetricNameSpace}/{ruuviTagId}\<close>.
\<close>

theorem metric_namespace_shared:
  "map metricNamespace (metric_actions (RuuviTagMonitoringStack ctx props))
     = [cloudWatchMetricNameSpace props @ ''/'' @ ruuviTagId props,
        cloudWatchMetricNameSpace props @ ''/'' @ ruuviTagId props]
   \<and> map namespace (dashboard_metrics (RuuviTagMonitoringStack ctx props))
     = [cloudWatchMetricNameSpace props @ ''/'' @ ruuviTagId props]"
  by (simp add: constructor_defs declared_def metric_actions_def dashboard_metrics_def)

text \<open>The example of the specification: the application's own input.\<close>

theorem metric_namespace_shared_witness:
  "map metricNamespace (metric_actions (RuuviTagMonitoringStack app_context app_props))
     = [''RuuviTag/f3d619998f38'', ''RuuviTag/f3d619998f38'']
   \<and> map namespace (dashboard_metrics (RuuviTagMonitoringStack app_context app_props))
     = [''RuuviTag/f3d619998f38'']"
  using metric_namespace_shared [of app_context app_props]
  by (simp add: app_props_def)

text \<open>
  C4, as stated: for every configuration input, no wildcard stands in the publish ARN above
  the \<^verbatim>\<open>{iotTopicPrefix}/\<close> segment. The region and the account of the stack stand there, and
  when the caller names either as \<^verbatim>\<open>*\<close>, at the application's own configuration input, a
  wildcard does.
\<close>

theorem publish_arn_wildcard_counterexample:
  "CHR ''*'' \<in> set (concat (map (above_topic_prefix (iotTopicPrefix app_props))
       (publish_arns (RuuviTagMonitoringStack
          (app_context\<lparr>StackContext.region := Some ''*''\<rparr>) app_props))))
   \<and> CHR ''*'' \<in> set (concat (map (above_topic_prefix (iotTopicPrefix app_props))
       (publish_arns (RuuviTagMonitoringStack
          (app_context\<lparr>StackContext.account := Some ''*''\<rparr>) app_props))))"
  by (simp add: constructor_defs declared_def publish_resources_def publish_arns_def
      above_topic_prefix_def tstring_text_def app_context_def app_props_def)

text \<open>
  C4, amended: for every configuration input, when the region and the account of the stack
  hold no wildcard, the one resource of the access policy's publish statement is the ARN
  \<^verbatim>\<open>arn:aws:iot:{region}:{account}:topic/{iotTopicPrefix}/*\<close>, and no wildcard stands in it
  above the \<^verbatim>\<open>{iotTopicPrefix}/\<close> segment.
\<close>

theorem publish_arn_scoped_to_prefix:
  assumes "CHR ''*'' \<notin> set (frag_text (Stack.region (RuuviTagMonitoringStack ctx props)))"
    and "CHR ''*'' \<notin> set (frag_text (Stack.account (RuuviTagMonitoringStack ctx props)))"
  shows "publish_arns (RuuviTagMonitoringStack ctx props)
         = [[Lit ''arn:aws:iot:'', Stack.region (RuuviTagMonitoringStack ctx props), Lit '':'',
             Stack.account (RuuviTagMonitoringStack ctx props),
             Lit ('':topic/'' @ iotTopicPrefix props @ ''/*'')]]
       \<and> list_all (\<lambda>arn. CHR ''*'' \<notin> set (above_topic_prefix (iotTopicPrefix props) arn))
           (publish_arns (RuuviTagMonitoringStack ctx props))"
proof -
  let ?s = "RuuviTagMonitoringStack ctx props"
  let ?arn = "[Lit ''arn:aws:iot:'', Stack.region ?s, Lit '':'', Stack.account ?s,
               Lit ('':topic/'' @ iotTopicPrefix props @ ''/*'')]"
  have arns: "publish_arns ?s = [?arn]"
    by (simp add: constructor_defs declared_def publish_resources_def publish_arns_def)
  have arn_text: "tstring_text ?arn
      = (''arn:aws:iot:'' @ frag_text (Stack.region ?s) @ '':'' @ frag_text (Stack.account ?s)
         @ '':topic/'') @ (iotTopicPrefix props @ ''/*'')"
    by (simp add: tstring_text_def)
  have above: "above_topic_prefix (iotTopicPrefix props) ?arn
      = ''arn:aws:iot:'' @ frag_text (Stack.region ?s) @ '':'' @ frag_text (Stack.account ?s)
        @ '':topic/''"
    unfolding above_topic_prefix_def arn_text by (rule take_off_suffix)
  have "CHR ''*'' \<notin> set (above_topic_prefix (iotTopicPrefix props) ?arn)"
    unfolding above using assms by simp
  then show ?thesis
    unfolding arns by simp
qed

text \<open>The application's own input: the region is named, the account is not.\<close>

theorem publish_arn_scoped_to_prefix_witness:
  "CHR ''*'' \<notin> set (frag_text (Stack.region (RuuviTagMonitoringStack app_context app_props)))
   \<and> CHR ''*'' \<notin> set (frag_text (Stack.account (RuuviTagMonitoringStack app_context app_props)))
   \<and> publish_arns (RuuviTagMonitoringStack app_context app_props)
       = [[Lit ''arn:aws:iot:'', Lit ''eu-north-1'', Lit '':'', PseudoParameter ''AWS::AccountId'',
           Lit '':topic/ruuvitag/*'']]
   \<and> map (above_topic_prefix ''ruuvitag'')
         (publish_arns (RuuviTagMonitoringStack app_context app_props))
       = [''arn:aws:iot:eu-north-1::topic/'']"
proof -
  let ?s = "RuuviTagMonitoringStack app_context app_props"
  have r: "CHR ''*'' \<notin> set (frag_text (Stack.region ?s))"
    by (simp add: constructor_defs app_context_def)
  have a: "CHR ''*'' \<notin> set (frag_text (Stack.account ?s))"
    by (simp add: constructor_defs app_context_def)
  have region: "Stack.region ?s = Lit ''eu-north-1''"
    by (simp add: constructor_defs app_context_def)
  have account: "Stack.account ?s = PseudoParameter ''AWS::AccountId''"
    by (simp add: constructor_defs app_context_def)
  have prefix: "iotTopicPrefix app_props = ''ruuvitag''"
    by (simp add: app_props_def)
  from publish_arn_scoped_to_prefix [OF r a]
  have "publish_arns ?s
       = [[Lit ''arn:aws:iot:'', Lit ''eu-north-1'', Lit '':'', PseudoParameter ''AWS::AccountId'',
           Lit '':topic/ruuvitag/*'']]"
    by (simp add: region account prefix)
  with r a show ?thesis
    by (simp add: above_topic_prefix_def tstring_text_def)
qed

subsection \<open>Ordering\<close>

text \<open>
  C5, as stated: the stack holds an explicit dependency edge from the attachment to the
  credential, from the routing rule to the error log sink and from the routing rule to the
  execution role. At the application's own input it holds none of the three.
\<close>

theorem explicit_edges_counterexample:
  "\<not> explicit_edge is_CfnThingPrincipalAttachment is_AwsCustomResource
       (RuuviTagMonitoringStack app_context app_props)
   \<and> \<not> explicit_edge is_CfnTopicRule is_LogGroup
         (RuuviTagMonitoringStack app_context app_props)
   \<and> \<not> explicit_edge is_CfnTopicRule is_Role
         (RuuviTagMonitoringStack app_context app_props)"
  by (simp add: constructor_defs explicit_edge_def declares_def resource_at_def)

text \<open>
  C5, amended: for every configuration input, each of these orderings is expressed by a
  reference that the dependent declaration holds to its prerequisite, rather than left to
  declaration order. The principal of the attachment is the \<^verbatim>\<open>certificateArn\<close> response
  field of the credential; the role ARN of each metric action of the routing rule and of its
  error action is the \<^verbatim>\<open>roleArn\<close> of the execution role; and the log group name of the error
  action is the \<^verbatim>\<open>logGroupName\<close> of the error log sink.
\<close>

theorem ordering_by_reference:
  "map CfnThingPrincipalAttachmentProps.principal
       (declared thingPrincipalAttachment_of (RuuviTagMonitoringStack ctx props))
     = [[ResponseField 1 ''certificateArn'']]
   \<and> declares (RuuviTagMonitoringStack ctx props) is_AwsCustomResource 1
   \<and> map CloudwatchMetricAction.roleArn (metric_actions (RuuviTagMonitoringStack ctx props))
     = [[Attr 7 ''roleArn''], [Attr 7 ''roleArn'']]
   \<and> map (errorAction \<circ> topicRulePayload)
       (declared topicRule_of (RuuviTagMonitoringStack ctx props))
     = [cloudwatchLogs \<lparr> logGroupName = [Attr 6 ''logGroupName''],
                         CloudwatchLogsAction.roleArn = [Attr 7 ''roleArn''] \<rparr>]
   \<and> declares (RuuviTagMonitoringStack ctx props) is_Role 7
   \<and> declares (RuuviTagMonitoringStack ctx props) is_LogGroup 6"
proof -
  let ?s = "RuuviTagMonitoringStack ctx props"
  have principal: "map CfnThingPrincipalAttachmentProps.principal
      (declared thingPrincipalAttachment_of ?s) = [[ResponseField 1 ''certificateArn'']]"
    by (simp add: constructor_defs declared_def)
  have actions: "map CloudwatchMetricAction.roleArn (metric_actions ?s)
      = [[Attr 7 ''roleArn''], [Attr 7 ''roleArn'']]"
    by (simp add: constructor_defs declared_def metric_actions_def)
  have error_action: "map (errorAction \<circ> topicRulePayload) (declared topicRule_of ?s)
      = [cloudwatchLogs \<lparr> logGroupName = [Attr 6 ''logGroupName''],
                          CloudwatchLogsAction.roleArn = [Attr 7 ''roleArn''] \<rparr>]"
    by (simp add: constructor_defs declared_def)
  have handles: "declares ?s is_AwsCustomResource 1" "declares ?s is_Role 7"
    "declares ?s is_LogGroup 6"
    by (simp_all add: declares_def resource_at_def constructor_defs)
  from principal actions error_action handles show ?thesis
    by simp
qed

text \<open>
  C6: for every configuration input, the attachment of the credential to the device identity
  carries an explicit dependency edge on the device identity.
\<close>

theorem attachment_depends_on_device_identity:
  "explicit_edge is_CfnThingPrincipalAttachment is_CfnThing (RuuviTagMonitoringStack ctx props)"
proof -
  let ?s = "RuuviTagMonitoringStack ctx props"
  have "declares ?s is_CfnThingPrincipalAttachment 3"
    by (simp add: declares_synthesised class_at)
  moreover have "declares ?s is_CfnThing 0"
    by (simp add: declares_synthesised class_at)
  ultimately show ?thesis
    by (simp add: explicit_edge_def synthesised_dependencies)
qed

subsection \<open>The credential\<close>

text \<open>
  C7: the credential's physical resource id is taken from the \<^verbatim>\<open>certificateId\<close> field of the
  creation response, and its delete call, \<^verbatim>\<open>DeleteCertificateCommand\<close>, has one parameter,
  \<^verbatim>\<open>certificateId\<close>, whose value is the reference to that physical resource id.
\<close>

theorem credential_delete_keyed_by_physical_id:
  "map (\<lambda>c. (physicalResourceId (onCreate c), action (onDelete c), parameters (onDelete c)))
     (declared customResource_of (RuuviTagMonitoringStack ctx props))
   = [(Some (PhysicalResourceId_fromResponse ''certificateId''),
       ''DeleteCertificateCommand'',
       [(''certificateId'', PhysicalResourceIdReference)])]"
  by (simp add: constructor_defs declared_def)

subsection \<open>Metrics shown and metrics permitted\<close>

text \<open>
  C9: for every configuration input, the dashboard graphs exactly one metric series, named
  \<^verbatim>\<open>Humidity\<close>; the routing rule publishes \<^verbatim>\<open>Temperature\<close> and \<^verbatim>\<open>Humidity\<close> to one
  namespace, and \<^verbatim>\<open>Temperature\<close> is not among the metrics any widget graphs.
\<close>

theorem dashboard_shows_only_humidity:
  "map MetricProps.metricName (dashboard_metrics (RuuviTagMonitoringStack ctx props))
     = [''Humidity'']
   \<and> map (\<lambda>a. (CloudwatchMetricAction.metricName a, metricNamespace a))
       (metric_actions (RuuviTagMonitoringStack ctx props))
     = [(''Temperature'', cloudWatchMetricNameSpace props @ ''/'' @ ruuviTagId props),
        (''Humidity'', cloudWatchMetricNameSpace props @ ''/'' @ ruuviTagId props)]
   \<and> ''Temperature''
       \<notin> set (map MetricProps.metricName (dashboard_metrics (RuuviTagMonitoringStack ctx props)))"
  by (simp add: constructor_defs declared_def metric_actions_def dashboard_metrics_def)

text \<open>
  C10: for every configuration input, the execution role has one inline policy,
  \<^verbatim>\<open>putMetricsPolicy\<close>, whose one statement allows \<^verbatim>\<open>cloudwatch:PutMetricData\<close> on the
  resource \<^verbatim>\<open>*\<close>; nothing in it is derived from the input.
\<close>

theorem execution_role_put_metric_wildcard:
  "map inlinePolicies (declared role_of (RuuviTagMonitoringStack ctx props))
   = [[(''putMetricsPolicy'',
        \<lparr> statements =
            [\<lparr> PolicyStatement.actions = [''cloudwatch:PutMetricData''],
               resources = [''*''] \<rparr>] \<rparr>)]]"
  by (simp add: constructor_defs declared_def)

end
